theory Spec2Isabelle
  imports
    Complex_Main
    "HOL-Library.Char_ord"
    "HOL-Library.List_Lexorder"
    "HOL-Library.Sublist"
    "HOL-Library.Multiset"
begin

section \<open>Record model (types/policy.ts)\<close>

text \<open>
  The enumerations of the normalised schema.  Each TypeScript string-literal union is a
  datatype with one constructor per literal.
\<close>

datatype Regulator = CC | ICO | OFSI | HSE | HMRC | FR | OSCR | CCNI | ASA

datatype ComplianceDomain =
  governance | safeguarding | gdpr | health_safety
  | financial_reporting | risk_management | anti_fraud | sanctions

datatype DocumentType = Guidance | Case | Enforcement | Regulation | Alert | Sanction

datatype IncomeBand = Band_small | Band_medium | Band_large

datatype RiskLevel = Risk_low | Risk_medium | Risk_high | Risk_critical

datatype CaseStatus = Status_open | Status_concluded | Status_monitoring

text \<open>The string a risk level is at run time (the filter compares it with a string).\<close>

fun risk_level_str :: "RiskLevel \<Rightarrow> string" where
  "risk_level_str Risk_low = ''low''"
| "risk_level_str Risk_medium = ''medium''"
| "risk_level_str Risk_high = ''high''"
| "risk_level_str Risk_critical = ''critical''"

text \<open>
  \<open>CharityPolicy\<close>: the nine required fields, then the optional ones (\<open>field?: T\<close> is
  \<open>T option\<close>, \<open>None\<close> standing for \<open>undefined\<close>).  The field \<open>id\<close> is \<open>policy_id\<close> and
  \<open>keywords\<close> is \<open>keywords_list\<close> here, the source names being taken in HOL.  The two
  numeric fields are JavaScript numbers; no operation modelled below reads them.
\<close>

record CharityPolicy =
  policy_id :: string
  title :: string
  summary :: string
  source_url :: string
  published_date :: string
  last_updated :: string
  regulator :: Regulator
  domain :: ComplianceDomain
  document_type :: DocumentType
  charity_number :: "string option"
  charity_name :: "string option"
  charity_income_band :: "IncomeBand option"
  risk_level :: "RiskLevel option"
  case_id :: "string option"
  case_status :: "CaseStatus option"
  outcome :: "string option"
  issues_identified :: "string list option"
  sanctions_regime :: "string option"
  designated_by :: "string option"
  fine_amount :: "real option"
  keywords_list :: "string list option"
  full_text :: "string option"
  cc_registered_number :: "string option"
  cc_suffix :: "string option"
  cc_status :: "string option"
  cc_latest_income :: "real option"
  cc_governing_document :: "string option"
  cc_primary_region :: "string option"

text \<open>
  A facet of \<open>PolicyFilters\<close> typed \<open>T | T[]\<close> is either one value or an array of values.
\<close>

datatype 'a facet = One 'a | Many "'a list"

record PolicyFilters =
  f_search :: "string option"
  f_regulator :: "Regulator facet option"
  f_domain :: "ComplianceDomain facet option"
  f_document_type :: "DocumentType facet option"
  f_date_from :: "string option"
  f_date_to :: "string option"
  f_has_case_id :: "bool option"
  f_risk_level :: "string option"

section \<open>JavaScript string primitives\<close>

text \<open>
  Strings are lists of characters compared by character code, as \<open>>=\<close> and \<open><=\<close> on
  JavaScript strings compare code units.  \<open>toLowerCase\<close> is modelled on the ASCII letters:
  an upper-case letter gets bit 5 of its code set, which adds 32 to it; the cased letters
  outside ASCII, which JavaScript lowers too, are left as they are.
  \<open>str_includes s q\<close> is \<open>s.includes(q)\<close>, the substring test; the empty string is a
  substring of every string.
\<close>

definition lower_char :: "char \<Rightarrow> char" where
  "lower_char c =
     (if CHR ''A'' \<le> c \<and> c \<le> CHR ''Z''
      then (case c of Char b0 b1 b2 b3 b4 b5 b6 b7 \<Rightarrow> Char b0 b1 b2 b3 b4 True b6 b7)
      else c)"

definition toLowerCase :: "string \<Rightarrow> string" where
  "toLowerCase s = map lower_char s"

fun str_includes :: "string \<Rightarrow> string \<Rightarrow> bool" where
  "str_includes [] q = (q = [])"
| "str_includes (c # cs) q = (prefix q (c # cs) \<or> str_includes cs q)"

text \<open>A string in a condition is truthy when it is defined and not empty.\<close>

fun truthy :: "string option \<Rightarrow> bool" where
  "truthy None = False"
| "truthy (Some s) = (s \<noteq> [])"

text \<open>
  \<open>a.localeCompare(b)\<close>: a three-way comparison by the collation of the run-time.  The
  model is the code-unit order.  The two agree on ISO dates (\<open>YYYY-MM-DD\<close>: ASCII digits,
  and hyphens at the same two places), which is what the date fields hold; on other
  strings the collation may differ (it can order case differently and compare two
  different strings as equal), so a statement that rests on this function is made for
  ISO dates only.
\<close>

definition localeCompare :: "string \<Rightarrow> string \<Rightarrow> int" where
  "localeCompare a b = (if a < b then - 1 else if a = b then 0 else 1)"

text \<open>
  The format that the schema documents for \<open>published_date\<close> and \<open>last_updated\<close>
  (\<open>ISO 8601: YYYY-MM-DD\<close>): ten characters, ASCII digits but for the two hyphens.
\<close>

definition is_digit :: "char \<Rightarrow> bool" where
  "is_digit c \<longleftrightarrow> CHR ''0'' \<le> c \<and> c \<le> CHR ''9''"

fun iso_date :: "string \<Rightarrow> bool" where
  "iso_date [y1, y2, y3, y4, h1, m1, m2, h2, d1, d2] \<longleftrightarrow>
     list_all is_digit [y1, y2, y3, y4, m1, m2, d1, d2] \<and> h1 = CHR ''-'' \<and> h2 = CHR ''-''"
| "iso_date _ \<longleftrightarrow> False"

section \<open>Filter engine (filterPolicies)\<close>

fun facet_values :: "'a facet \<Rightarrow> 'a list" where
  "facet_values (One v) = [v]"
| "facet_values (Many vs) = vs"

definition search_matches :: "string \<Rightarrow> CharityPolicy \<Rightarrow> bool" where
  "search_matches searchLower p \<longleftrightarrow>
     str_includes (toLowerCase (title p)) searchLower
     \<or> str_includes (toLowerCase (summary p)) searchLower
     \<or> (case charity_name p of
           None \<Rightarrow> False
         | Some n \<Rightarrow> n \<noteq> [] \<and> str_includes (toLowerCase n) searchLower)
     \<or> (case keywords_list p of
           None \<Rightarrow> False
         | Some ks \<Rightarrow> list_ex (\<lambda>k. str_includes (toLowerCase k) searchLower) ks)"

definition case_signal :: "CharityPolicy \<Rightarrow> bool" where
  "case_signal p \<longleftrightarrow>
     truthy (case_id p) \<or> document_type p = Case \<or> document_type p = Enforcement"

text \<open>
  The function narrows \<open>result\<close> stage by stage, in the order of the source.  A stage runs
  when its filter is truthy: a string that is defined and non-empty, an array or an enum
  value that is defined, the flag when it is \<open>true\<close>.
\<close>

definition filterPolicies :: "CharityPolicy list \<Rightarrow> PolicyFilters \<Rightarrow> CharityPolicy list" where
  "filterPolicies policies filters =
     (let result = policies;
          result = (if truthy (f_search filters)
                    then filter (search_matches (toLowerCase (the (f_search filters)))) result
                    else result);
          result = (case f_regulator filters of
                      None \<Rightarrow> result
                    | Some r \<Rightarrow> filter (\<lambda>p. regulator p \<in> set (facet_values r)) result);
          result = (case f_domain filters of
                      None \<Rightarrow> result
                    | Some d \<Rightarrow> filter (\<lambda>p. domain p \<in> set (facet_values d)) result);
          result = (case f_document_type filters of
                      None \<Rightarrow> result
                    | Some t \<Rightarrow> filter (\<lambda>p. document_type p \<in> set (facet_values t)) result);
          result = (if truthy (f_date_from filters)
                    then filter (\<lambda>p. the (f_date_from filters) \<le> published_date p) result
                    else result);
          result = (if truthy (f_date_to filters)
                    then filter (\<lambda>p. published_date p \<le> the (f_date_to filters)) result
                    else result);
          result = (if f_has_case_id filters = Some True
                    then filter case_signal result
                    else result);
          result = (if truthy (f_risk_level filters)
                    then filter (\<lambda>p. map_option risk_level_str (risk_level p) = f_risk_level filters)
                           result
                    else result)
      in result)"

section \<open>Sorter (sortPolicies)\<close>

datatype SortBy = By_published_date | By_last_updated | By_title

datatype Order = Asc | Desc

text \<open>
  \<open>Array.prototype.sort\<close> with a comparator is a stable sort: an element goes before
  the first element it does not compare greater than, elements being inserted from the
  right so that equal elements keep their input order.
\<close>

fun insert_sorted :: "('a \<Rightarrow> 'a \<Rightarrow> int) \<Rightarrow> 'a \<Rightarrow> 'a list \<Rightarrow> 'a list" where
  "insert_sorted cmp x [] = [x]"
| "insert_sorted cmp x (y # ys) =
     (if cmp x y \<le> 0 then x # y # ys else y # insert_sorted cmp x ys)"

definition array_sort :: "('a \<Rightarrow> 'a \<Rightarrow> int) \<Rightarrow> 'a list \<Rightarrow> 'a list" where
  "array_sort cmp xs = foldr (insert_sorted cmp) xs []"

fun sort_field :: "SortBy \<Rightarrow> CharityPolicy \<Rightarrow> string" where
  "sort_field By_published_date p = published_date p"
| "sort_field By_last_updated p = last_updated p"
| "sort_field By_title p = title p"

definition compare_policies :: "SortBy \<Rightarrow> Order \<Rightarrow> CharityPolicy \<Rightarrow> CharityPolicy \<Rightarrow> int" where
  "compare_policies sortBy order a b =
     (let comparison =
            (if sortBy = By_title then localeCompare (title a) (title b)
             else localeCompare (sort_field sortBy a) (sort_field sortBy b))
      in if order = Desc then - comparison else comparison)"

definition sortPolicies :: "CharityPolicy list \<Rightarrow> SortBy \<Rightarrow> Order \<Rightarrow> CharityPolicy list" where
  "sortPolicies policies sortBy order = array_sort (compare_policies sortBy order) policies"

section \<open>Paginator (paginatePolicies)\<close>

text \<open>
  A JavaScript number that may fail to be a finite integer: \<open>total / 0\<close> is \<open>Infinity\<close>
  or \<open>NaN\<close>, the maximum of no number is \<open>-Infinity\<close>.
\<close>

datatype jsnum = Num int | Infinity | NegInfinity | NaN

text \<open>
  \<open>Array.prototype.slice(start, end)\<close>: a negative index counts from the end of the
  array, both indices are clamped to the array, and the slice is empty when the clamped
  end is not after the clamped start.
\<close>

definition slice :: "'a list \<Rightarrow> int \<Rightarrow> int \<Rightarrow> 'a list" where
  "slice xs start fin =
     (let len = int (length xs);
          k = (if start < 0 then max (len + start) 0 else min start len);
          final = (if fin < 0 then max (len + fin) 0 else min fin len)
      in take (nat (final - k)) (drop (nat k) xs))"

text \<open>\<open>Math.ceil(n / perPage)\<close> for a length \<open>n\<close> and an integer \<open>perPage\<close>.\<close>

definition ceil_div :: "int \<Rightarrow> int \<Rightarrow> jsnum" where
  "ceil_div n perPage =
     (if perPage = 0 then (if n = 0 then NaN else Infinity)
      else Num \<lceil>real_of_int n / real_of_int perPage\<rceil>)"

text \<open>The object returned by the paginator; its keys are prefixed with \<open>pg_\<close> here.\<close>

record Page =
  pg_data :: "CharityPolicy list"
  pg_total :: int
  pg_page :: int
  pg_totalPages :: jsnum

definition paginatePolicies :: "CharityPolicy list \<Rightarrow> int \<Rightarrow> int \<Rightarrow> Page" where
  "paginatePolicies policies page perPage =
     (let total' = int (length policies);
          totalPages = ceil_div total' perPage;
          start = (page - 1) * perPage;
          data = slice policies start (start + perPage)
      in \<lparr> pg_data = data, pg_total = total', pg_page = page, pg_totalPages = totalPages \<rparr>)"

section \<open>Sanctions matcher (app/api/sanctions/route.ts, GET)\<close>

text \<open>A value that may be \<open>null\<close> in a response.\<close>

datatype 'a nullable = Null | Val 'a

text \<open>
  \<open>s.replace(pat, rep)\<close> with a string pattern replaces the first occurrence of the
  pattern, wherever it is.
\<close>

fun replace_first :: "string \<Rightarrow> string \<Rightarrow> string \<Rightarrow> string" where
  "replace_first pat rep [] = (if pat = [] then rep else [])"
| "replace_first pat rep (c # cs) =
     (if prefix pat (c # cs) then rep @ drop (length pat) (c # cs)
      else c # replace_first pat rep cs)"

record SanctionHit =
  h_id :: string
  h_name :: string
  h_regime :: "string option"
  h_designated_by :: "string option"
  h_listed_date :: string
  h_source_url :: string

text \<open>
  The JSON body of the handler.  A key that an object literal does not have is \<open>None\<close>;
  the two success bodies of the handler have different keys.
\<close>

record SanctionsResponse =
  s_success :: bool
  s_query :: "string option"
  s_count :: "nat option"
  s_data :: "SanctionHit list"
  s_warning :: "string nullable option"
  s_message :: "string option"

definition name_matches :: "string \<Rightarrow> CharityPolicy \<Rightarrow> bool" where
  "name_matches nameLower s \<longleftrightarrow>
     str_includes (toLowerCase (title s)) nameLower
     \<or> (summary s \<noteq> [] \<and> str_includes (toLowerCase (summary s)) nameLower)"

definition regime_matches :: "string \<Rightarrow> CharityPolicy \<Rightarrow> bool" where
  "regime_matches regime s \<longleftrightarrow>
     (case sanctions_regime s of
        None \<Rightarrow> False
      | Some r \<Rightarrow> str_includes (toLowerCase r) (toLowerCase regime))"

definition format_hit :: "CharityPolicy \<Rightarrow> SanctionHit" where
  "format_hit m =
     \<lparr> h_id = policy_id m,
       h_name = replace_first ''Sanctions: '' [] (title m),
       h_regime = sanctions_regime m,
       h_designated_by = designated_by m,
       h_listed_date = published_date m,
       h_source_url = source_url m \<rparr>"

text \<open>
  The handler, as a function of the loaded records and of the two query parameters
  (\<open>None\<close> when \<open>searchParams.get\<close> returns \<open>null\<close>).
\<close>

definition sanctions_GET ::
  "CharityPolicy list \<Rightarrow> string option \<Rightarrow> string option \<Rightarrow> SanctionsResponse" where
  "sanctions_GET allPolicies name regime =
     (if \<not> truthy name \<or> length (the name) < 2
      then \<lparr> s_success = True, s_query = None, s_count = None, s_data = [],
             s_warning = None,
             s_message = Some ''Provide at least 2 characters to search'' \<rparr>
      else
        let sanctions' = filter (\<lambda>p. domain p = sanctions) allPolicies;
            nameLower = toLowerCase (the name);
            matches = filter (name_matches nameLower) sanctions';
            matches = (if truthy regime then filter (regime_matches (the regime)) matches
                       else matches);
            results = map format_hit matches
        in \<lparr> s_success = True, s_query = name, s_count = Some (length results),
             s_data = slice results 0 50,
             s_warning = Some (if length results = 0 then Null
                else Val ''This is for information only. Always verify against the official OFSI list.''),
             s_message = None \<rparr>)"

section \<open>Analytics aggregator (analytics route, GET)\<close>

text \<open>
  A counter object is a map from its keys to counts.  The loop increments a counter only
  under the guard \<open>key in counters\<close>.  The map has the own keys of the object: \<open>in\<close> also
  finds the keys that every object inherits (\<open>valueOf\<close> is one), which no value of the
  three enumerations is; for the timeline the model is that of records none of whose
  month keys is such a name.
\<close>

definition increment :: "('k \<rightharpoonup> nat) \<Rightarrow> 'k \<Rightarrow> ('k \<rightharpoonup> nat)" where
  "increment counters k =
     (case counters k of None \<Rightarrow> counters | Some c \<Rightarrow> counters(k \<mapsto> c + 1))"

definition byRegulator_init :: "Regulator \<rightharpoonup> nat" where
  "byRegulator_init = [CC \<mapsto> 0, ICO \<mapsto> 0, OFSI \<mapsto> 0, HSE \<mapsto> 0, HMRC \<mapsto> 0, FR \<mapsto> 0]"

definition byDomain_init :: "ComplianceDomain \<rightharpoonup> nat" where
  "byDomain_init =
     [governance \<mapsto> 0, safeguarding \<mapsto> 0, gdpr \<mapsto> 0, health_safety \<mapsto> 0,
      financial_reporting \<mapsto> 0, risk_management \<mapsto> 0, anti_fraud \<mapsto> 0, sanctions \<mapsto> 0]"

definition byType_init :: "DocumentType \<rightharpoonup> nat" where
  "byType_init =
     [Guidance \<mapsto> 0, Case \<mapsto> 0, Enforcement \<mapsto> 0, Regulation \<mapsto> 0, Alert \<mapsto> 0, Sanction \<mapsto> 0]"

record Counters =
  byRegulator :: "Regulator \<rightharpoonup> nat"
  byDomain :: "ComplianceDomain \<rightharpoonup> nat"
  byType :: "DocumentType \<rightharpoonup> nat"
  timeline :: "string \<rightharpoonup> nat"

text \<open>The body of \<open>policies.forEach\<close>, on the four counter objects.\<close>

definition process_policy :: "CharityPolicy \<Rightarrow> Counters \<Rightarrow> Counters" where
  "process_policy p st =
     \<lparr> byRegulator = increment (byRegulator st) (regulator p),
       byDomain = increment (byDomain st) (domain p),
       byType = increment (byType st) (document_type p),
       timeline = increment (timeline st) (take 7 (published_date p)) \<rparr>"

text \<open>
  \<open>Math.max\<close> of a list of numbers: \<open>-Infinity\<close> for no number, \<open>NaN\<close> as soon as one
  argument is \<open>NaN\<close>.
\<close>

fun max2 :: "jsnum \<Rightarrow> jsnum \<Rightarrow> jsnum" where
  "max2 NaN _ = NaN"
| "max2 _ NaN = NaN"
| "max2 Infinity _ = Infinity"
| "max2 _ Infinity = Infinity"
| "max2 NegInfinity y = y"
| "max2 x NegInfinity = x"
| "max2 (Num a) (Num b) = Num (max a b)"

definition Math_max :: "jsnum list \<Rightarrow> jsnum" where
  "Math_max xs = foldr max2 xs NegInfinity"

record HighRiskItem =
  r_id :: string
  r_title :: string
  r_domain :: ComplianceDomain
  r_risk_level :: "RiskLevel option"
  r_date :: string

record AnalyticsResponse =
  a_success :: bool
  a_total :: nat
  a_last_updated :: "jsnum nullable"
  a_by_regulator :: "Regulator \<rightharpoonup> nat"
  a_by_domain :: "ComplianceDomain \<rightharpoonup> nat"
  a_by_type :: "DocumentType \<rightharpoonup> nat"
  a_timeline :: "(string \<times> nat) list"
  a_high_risk_recent :: "HighRiskItem list"

text \<open>
  The handler, as a function of the loaded records.  Two values come from the run-time
  and are parameters: \<open>getTime s\<close> is \<open>new Date(s).getTime()\<close>, a number of milliseconds
  or \<open>NaN\<close> for a string that is no date, and \<open>months\<close> is the list of the twelve
  \<open>YYYY-MM\<close> keys that the handler computes from the clock.  \<open>Object.entries\<close> lists
  a key once, at the place of its first assignment.
\<close>

definition analytics_GET ::
  "(string \<Rightarrow> jsnum) \<Rightarrow> string list \<Rightarrow> CharityPolicy list \<Rightarrow> AnalyticsResponse" where
  "analytics_GET getTime months policies =
     (let st = fold process_policy policies
                 \<lparr> byRegulator = byRegulator_init, byDomain = byDomain_init,
                   byType = byType_init,
                   timeline = fold (\<lambda>key t. t(key \<mapsto> 0)) months Map.empty \<rparr>;
          highRisk = slice
            (array_sort (\<lambda>a b. localeCompare (published_date b) (published_date a))
               (filter (\<lambda>p. risk_level p = Some Risk_high \<or> risk_level p = Some Risk_critical)
                  policies))
            0 10
      in \<lparr> a_success = True,
           a_total = length policies,
           a_last_updated =
             (if length policies > 0
              then Val (Math_max (map (\<lambda>p. getTime (last_updated p)) policies))
              else Null),
           a_by_regulator = byRegulator st,
           a_by_domain = byDomain st,
           a_by_type = byType st,
           a_timeline =
             map (\<lambda>month. (month, the (timeline st month))) (rev (remdups (rev months))),
           a_high_risk_recent =
             map (\<lambda>p. \<lparr> r_id = policy_id p, r_title = title p, r_domain = domain p,
                         r_risk_level = risk_level p, r_date = published_date p \<rparr>) highRisk \<rparr>)"

section \<open>Example records\<close>

text \<open>
  A record with the given required fields, an empty summary and URL, and no optional
  field.
\<close>

definition example_policy ::
  "string \<Rightarrow> string \<Rightarrow> string \<Rightarrow> Regulator \<Rightarrow> ComplianceDomain \<Rightarrow> DocumentType \<Rightarrow> CharityPolicy" where
  "example_policy ident ttl date reg dom' dt =
     \<lparr> policy_id = ident, title = ttl, summary = [], source_url = [],
       published_date = date, last_updated = date,
       regulator = reg, domain = dom', document_type = dt,
       charity_number = None, charity_name = None, charity_income_band = None,
       risk_level = None, case_id = None, case_status = None, outcome = None,
       issues_identified = None, sanctions_regime = None, designated_by = None,
       fine_amount = None, keywords_list = None, full_text = None,
       cc_registered_number = None, cc_suffix = None, cc_status = None,
       cc_latest_income = None, cc_governing_document = None, cc_primary_region = None \<rparr>"

text \<open>The filter specification with no facet at all.\<close>

definition no_filters :: PolicyFilters where
  "no_filters =
     \<lparr> f_search = None, f_regulator = None, f_domain = None, f_document_type = None,
       f_date_from = None, f_date_to = None, f_has_case_id = None, f_risk_level = None \<rparr>"

section \<open>The filter chain as one predicate\<close>

text \<open>
  \<open>passes f p\<close> collects the conditions of the eight stages.  It is used in proofs only:
  \<open>filterPolicies_filter\<close> shows that the chain keeps exactly the records that pass.
\<close>

definition passes :: "PolicyFilters \<Rightarrow> CharityPolicy \<Rightarrow> bool" where
  "passes f p \<longleftrightarrow>
     (truthy (f_search f) \<longrightarrow> search_matches (toLowerCase (the (f_search f))) p)
     \<and> (\<forall>r. f_regulator f = Some r \<longrightarrow> regulator p \<in> set (facet_values r))
     \<and> (\<forall>d. f_domain f = Some d \<longrightarrow> domain p \<in> set (facet_values d))
     \<and> (\<forall>t. f_document_type f = Some t \<longrightarrow> document_type p \<in> set (facet_values t))
     \<and> (truthy (f_date_from f) \<longrightarrow> the (f_date_from f) \<le> published_date p)
     \<and> (truthy (f_date_to f) \<longrightarrow> published_date p \<le> the (f_date_to f))
     \<and> (f_has_case_id f = Some True \<longrightarrow> case_signal p)
     \<and> (truthy (f_risk_level f) \<longrightarrow>
          map_option risk_level_str (risk_level p) = f_risk_level f)"

lemma if_filter: "(if c then filter P xs else xs) = filter (\<lambda>x. c \<longrightarrow> P x) xs"
  by simp

lemma case_filter:
  "(case opt of None \<Rightarrow> xs | Some v \<Rightarrow> filter (P v) xs)
   = filter (\<lambda>x. \<forall>v. opt = Some v \<longrightarrow> P v x) xs"
  by (cases opt) simp_all

lemma filterPolicies_filter: "filterPolicies ps f = filter (passes f) ps"
  unfolding filterPolicies_def Let_def if_filter case_filter filter_filter passes_def
  by (rule filter_cong) auto

lemma truthy_iff: "truthy opt \<longleftrightarrow> (\<exists>c. opt = Some c \<and> c \<noteq> [])"
  by (cases opt) auto

lemma passes_has_case:
  "f_has_case_id f = Some True \<Longrightarrow>
   passes f p \<longleftrightarrow> passes (f\<lparr>f_has_case_id := None\<rparr>) p \<and> case_signal p"
  by (auto simp add: passes_def)

lemma slice_0: "0 \<le> n \<Longrightarrow> slice xs 0 n = take (nat n) xs"
  by (auto simp add: slice_def Let_def min_def)

section \<open>Filter engine: idempotence, empty facets, case identity\<close>

text \<open>
  C5.  For every record set and every filter specification, filtering the output of the
  filter engine again with the same specification changes nothing:
  \<open>filter (filter records spec) spec = filter records spec\<close>.
\<close>

theorem filterPolicies_idempotent:
  "filterPolicies (filterPolicies ps f) f = filterPolicies ps f"
  by (simp add: filterPolicies_filter)

theorem filterPolicies_idempotent_witness:
  "filterPolicies (filterPolicies
      [example_policy ''a'' ''Annual guidance'' ''2024-01-01'' CC governance Guidance,
       example_policy ''b'' ''Fire safety'' ''2024-02-01'' HSE health_safety Guidance]
      (no_filters\<lparr>f_search := Some ''GUID'', f_regulator := Some (One CC)\<rparr>))
      (no_filters\<lparr>f_search := Some ''GUID'', f_regulator := Some (One CC)\<rparr>)
   = [example_policy ''a'' ''Annual guidance'' ''2024-01-01'' CC governance Guidance]"
  using filterPolicies_idempotent
    [of "[example_policy ''a'' ''Annual guidance'' ''2024-01-01'' CC governance Guidance,
          example_policy ''b'' ''Fire safety'' ''2024-02-01'' HSE health_safety Guidance]"
        "no_filters\<lparr>f_search := Some ''GUID'', f_regulator := Some (One CC)\<rparr>"]
  by (simp add: filterPolicies_def no_filters_def example_policy_def search_matches_def
      toLowerCase_def lower_char_def)

text \<open>
  C10.  For every record set, a filter specification in which the regulator, the domain
  or the document-type facet is present as an empty list gives the empty sequence: no
  record is a member of an empty list of allowed values.  (An absent facet imposes no
  constraint, as the second half of the witness shows.)
\<close>

theorem filterPolicies_empty_facet:
  "f_regulator f = Some (Many []) \<or> f_domain f = Some (Many [])
     \<or> f_document_type f = Some (Many [])
   \<Longrightarrow> filterPolicies ps f = []"
  by (auto simp add: filterPolicies_filter passes_def filter_empty_conv)

theorem filterPolicies_empty_facet_witness:
  "filterPolicies [example_policy ''a'' ''Annual guidance'' ''2024-01-01'' CC governance Guidance]
      (no_filters\<lparr>f_domain := Some (Many [])\<rparr>) = []
   \<and> filterPolicies [example_policy ''a'' ''Annual guidance'' ''2024-01-01'' CC governance Guidance]
      no_filters = [example_policy ''a'' ''Annual guidance'' ''2024-01-01'' CC governance Guidance]"
  using filterPolicies_empty_facet [of "no_filters\<lparr>f_domain := Some (Many [])\<rparr>"
      "[example_policy ''a'' ''Annual guidance'' ''2024-01-01'' CC governance Guidance]"]
  by (simp add: filterPolicies_def no_filters_def)

text \<open>
  Auxiliary fact: the stage of the flag keeps the records whose \<open>case_id\<close> is truthy
  (present and not empty) or whose document type is \<open>case\<close> or \<open>enforcement\<close>.
\<close>

lemma filterPolicies_has_case_id:
  "f_has_case_id f = Some True \<Longrightarrow>
   filterPolicies ps f =
     filter (\<lambda>p. (\<exists>c. case_id p = Some c \<and> c \<noteq> [])
                 \<or> document_type p = Case \<or> document_type p = Enforcement)
       (filterPolicies ps (f\<lparr>f_has_case_id := None\<rparr>))"
  unfolding filterPolicies_filter filter_filter
  by (rule filter_cong) (auto simp add: passes_has_case case_signal_def truthy_iff)

text \<open>
  C8.  For the records that the loader produces, with the has-case-identity flag set, a
  record passes the predicate if and only if its \<open>case_id\<close> is present or its document
  type is \<open>case\<close> or \<open>enforcement\<close>: of the records that the other facets of the
  specification keep, the filter engine keeps exactly those, in their order.  The loader
  builds the field as \<open>row.case_id || undefined\<close>, so no record it produces has a
  \<open>case_id\<close> that is present and empty; this is the second hypothesis.
\<close>

theorem has_case_id_union:
  assumes "f_has_case_id f = Some True"
    and "\<forall>p\<in>set ps. case_id p \<noteq> Some []"
  shows "filterPolicies ps f =
     filter (\<lambda>p. case_id p \<noteq> None
                 \<or> document_type p = Case \<or> document_type p = Enforcement)
       (filterPolicies ps (f\<lparr>f_has_case_id := None\<rparr>))"
proof -
  have "((\<exists>c. case_id p = Some c \<and> c \<noteq> []) \<or> document_type p = Case
           \<or> document_type p = Enforcement)
      = (case_id p \<noteq> None \<or> document_type p = Case \<or> document_type p = Enforcement)"
    if "p \<in> set (filterPolicies ps (f\<lparr>f_has_case_id := None\<rparr>))" for p
  proof -
    have "p \<in> set ps" using that by (simp add: filterPolicies_filter)
    then have "case_id p \<noteq> Some []" using assms(2) by blast
    then show ?thesis by (cases "case_id p") auto
  qed
  then show ?thesis
    unfolding filterPolicies_has_case_id [OF assms(1)] by (intro filter_cong refl)
qed

theorem has_case_id_union_witness:
  "filterPolicies
     [example_policy ''a'' ''Annual guidance'' ''2024-01-01'' CC governance Guidance,
      example_policy ''b'' ''Inquiry report'' ''2024-02-01'' CC governance Case,
      (example_policy ''c'' ''Regulatory alert'' ''2024-03-01'' CC governance Alert)
         \<lparr>case_id := Some ''CC-17''\<rparr>]
     (no_filters\<lparr>f_has_case_id := Some True\<rparr>)
   = [example_policy ''b'' ''Inquiry report'' ''2024-02-01'' CC governance Case,
      (example_policy ''c'' ''Regulatory alert'' ''2024-03-01'' CC governance Alert)
         \<lparr>case_id := Some ''CC-17''\<rparr>]"
  using has_case_id_union [of "no_filters\<lparr>f_has_case_id := Some True\<rparr>"
     "[example_policy ''a'' ''Annual guidance'' ''2024-01-01'' CC governance Guidance,
      example_policy ''b'' ''Inquiry report'' ''2024-02-01'' CC governance Case,
      (example_policy ''c'' ''Regulatory alert'' ''2024-03-01'' CC governance Alert)
         \<lparr>case_id := Some ''CC-17''\<rparr>]"]
  by (simp add: filterPolicies_def no_filters_def example_policy_def)

section \<open>Sanctions matcher: the length guard and the cap\<close>

text \<open>
  C6.  For every record set and every query \<open>n\<close> of at least 2 characters, the \<open>data\<close>
  list of the sanctions search has at most 50 entries, and \<open>count\<close> is the number of all
  matching records: the records of the sanctions domain whose lower-cased title or
  (non-empty) summary contains the lower-cased query and, when a non-empty regime is
  given, whose regime contains it.  \<open>data\<close> holds the first 50 of them.
\<close>

theorem sanctions_cap_and_count:
  assumes "name = Some n" and "2 \<le> length n"
    and "M = filter (\<lambda>p. domain p = sanctions
          \<and> (str_includes (toLowerCase (title p)) (toLowerCase n)
               \<or> summary p \<noteq> [] \<and> str_includes (toLowerCase (summary p)) (toLowerCase n))
          \<and> (\<forall>r. regime = Some r \<and> r \<noteq> [] \<longrightarrow>
                (\<exists>g. sanctions_regime p = Some g
                     \<and> str_includes (toLowerCase g) (toLowerCase r)))) ps"
  shows "length (s_data (sanctions_GET ps name regime)) \<le> 50
     \<and> s_count (sanctions_GET ps name regime) = Some (length M)
     \<and> s_data (sanctions_GET ps name regime) = take 50 (map format_hit M)"
proof -
  have "filter (\<lambda>p. (regime_matches r) p) (filter (name_matches (toLowerCase n))
          (filter (\<lambda>p. domain p = sanctions) ps)) = M"
    if "regime = Some r" "r \<noteq> []" for r
    unfolding assms(3) filter_filter using that
    by (intro filter_cong) (auto simp add: name_matches_def regime_matches_def split: option.splits)
  moreover have "filter (name_matches (toLowerCase n)) (filter (\<lambda>p. domain p = sanctions) ps) = M"
    if "\<not> truthy regime"
    unfolding assms(3) filter_filter using that
    by (intro filter_cong) (auto simp add: name_matches_def truthy_iff)
  ultimately show ?thesis
    using assms(1,2) by (cases "truthy regime") (auto simp add: sanctions_GET_def Let_def slice_0 truthy_iff)
qed

theorem sanctions_cap_and_count_witness:
  "2 \<le> length ''smith''
   \<and> length (s_data (sanctions_GET
        (replicate 51 (example_policy ''a'' ''Sanctions: John Smith'' ''2024-01-01'' OFSI sanctions Sanction))
        (Some ''smith'') None)) = 50
   \<and> s_count (sanctions_GET
        (replicate 51 (example_policy ''a'' ''Sanctions: John Smith'' ''2024-01-01'' OFSI sanctions Sanction))
        (Some ''smith'') None) = Some 51"
  using sanctions_cap_and_count [of "Some ''smith''" "''smith''" _ None
     "replicate 51 (example_policy ''a'' ''Sanctions: John Smith'' ''2024-01-01'' OFSI sanctions Sanction)",
     OF refl _ refl]
  by (simp add: example_policy_def toLowerCase_def lower_char_def)

text \<open>
  C7, as stated: a query that is absent or shorter than 2 characters gives a response
  with count 0.  The response of the length guard has the keys \<open>success\<close>, \<open>data\<close> and
  \<open>message\<close> only; it has no \<open>count\<close>.
\<close>

theorem sanctions_short_query_counterexample:
  "s_count (sanctions_GET [] (Some ''s'') None) \<noteq> Some 0"
  by (simp add: sanctions_GET_def)

text \<open>
  C7, amended.  For every record set, a sanctions search whose query is absent or
  shorter than 2 characters returns the same successful response whatever the records
  are: an empty result list and an informational message, with no count, no query and
  no advisory.
\<close>

theorem sanctions_short_query:
  "name = None \<or> (\<exists>n. name = Some n \<and> length n < 2) \<Longrightarrow>
   sanctions_GET ps name regime =
     \<lparr> s_success = True, s_query = None, s_count = None, s_data = [],
       s_warning = None, s_message = Some ''Provide at least 2 characters to search'' \<rparr>"
  by (cases name) (auto simp add: sanctions_GET_def)

theorem sanctions_short_query_witness:
  "s_data (sanctions_GET
      [example_policy ''a'' ''Sanctions: John Smith'' ''2024-01-01'' OFSI sanctions Sanction]
      (Some ''s'') None) = []
   \<and> s_success (sanctions_GET
      [example_policy ''a'' ''Sanctions: John Smith'' ''2024-01-01'' OFSI sanctions Sanction]
      (Some ''s'') None)
   \<and> s_warning (sanctions_GET
      [example_policy ''a'' ''Sanctions: John Smith'' ''2024-01-01'' OFSI sanctions Sanction]
      (Some ''s'') None) = None"
  using sanctions_short_query [of "Some ''s''"
      "[example_policy ''a'' ''Sanctions: John Smith'' ''2024-01-01'' OFSI sanctions Sanction]" None]
  by simp

section \<open>Paginator: negative pages, page count and page sizes\<close>

text \<open>
  C3, as stated: for every \<open>perPage \<ge> 1\<close> and every \<open>page \<le> 0\<close> the slice is empty.
  With three records, \<open>perPage = 1\<close> and \<open>page = -1\<close> the offsets are \<open>slice(-2, -1)\<close>, which
  counts from the end of the array and returns the second record.
\<close>

theorem paginate_negative_page_counterexample:
  "pg_data (paginatePolicies
     [example_policy ''a'' ''t'' ''2024-01-01'' CC governance Guidance,
      example_policy ''b'' ''t'' ''2024-01-02'' CC governance Guidance,
      example_policy ''c'' ''t'' ''2024-01-03'' CC governance Guidance] (- 1) 1)
   = [example_policy ''b'' ''t'' ''2024-01-02'' CC governance Guidance]
   \<and> pg_data (paginatePolicies
     [example_policy ''a'' ''t'' ''2024-01-01'' CC governance Guidance,
      example_policy ''b'' ''t'' ''2024-01-02'' CC governance Guidance,
      example_policy ''c'' ''t'' ''2024-01-03'' CC governance Guidance] (- 1) 1) \<noteq> []"
  by (simp add: paginatePolicies_def slice_def)

text \<open>
  C3, amended.  For every record set, every \<open>perPage \<ge> 1\<close> and every \<open>page \<le> 0\<close>, \<open>total\<close>
  is the full input length, and the slice is empty exactly when \<open>page = 0\<close> or the input
  has at most \<open>|page| \<times> perPage\<close> records.
\<close>

theorem paginate_nonpositive_page:
  assumes "1 \<le> perPage" and "page \<le> 0"
  shows "pg_total (paginatePolicies ps page perPage) = int (length ps)
     \<and> (pg_data (paginatePolicies ps page perPage) = []
          \<longleftrightarrow> page = 0 \<or> int (length ps) \<le> - page * perPage)"
proof (cases "page = 0")
  case True
  then show ?thesis
    using assms(1) by (simp add: paginatePolicies_def slice_def Let_def)
next
  case False
  with assms(2) have neg: "page < 0" by simp
  then have 1: "page * perPage < 0" using assms(1) by (simp add: mult_neg_pos)
  have 2: "(page - 1) * perPage = page * perPage - perPage" by (simp add: algebra_simps)
  show ?thesis
    using assms(1) neg 1 unfolding paginatePolicies_def slice_def Let_def 2
    by (auto simp add: max_def min_def)
qed

theorem paginate_nonpositive_page_witness:
  "pg_total (paginatePolicies
     [example_policy ''a'' ''t'' ''2024-01-01'' CC governance Guidance,
      example_policy ''b'' ''t'' ''2024-01-02'' CC governance Guidance,
      example_policy ''c'' ''t'' ''2024-01-03'' CC governance Guidance] 0 2) = 3
   \<and> pg_data (paginatePolicies
     [example_policy ''a'' ''t'' ''2024-01-01'' CC governance Guidance,
      example_policy ''b'' ''t'' ''2024-01-02'' CC governance Guidance,
      example_policy ''c'' ''t'' ''2024-01-03'' CC governance Guidance] 0 2) = []
   \<and> pg_data (paginatePolicies
     [example_policy ''a'' ''t'' ''2024-01-01'' CC governance Guidance,
      example_policy ''b'' ''t'' ''2024-01-02'' CC governance Guidance,
      example_policy ''c'' ''t'' ''2024-01-03'' CC governance Guidance] (- 2) 2) = []"
  using paginate_nonpositive_page [of 2 0
     "[example_policy ''a'' ''t'' ''2024-01-01'' CC governance Guidance,
      example_policy ''b'' ''t'' ''2024-01-02'' CC governance Guidance,
      example_policy ''c'' ''t'' ''2024-01-03'' CC governance Guidance]"]
    paginate_nonpositive_page [of 2 "- 2"
     "[example_policy ''a'' ''t'' ''2024-01-01'' CC governance Guidance,
      example_policy ''b'' ''t'' ''2024-01-02'' CC governance Guidance,
      example_policy ''c'' ''t'' ''2024-01-03'' CC governance Guidance]"]
  by simp

text \<open>Auxiliary facts: the two bounds of a ceiling, the size of a page, a telescoping sum.\<close>

lemma ceil_bounds:
  assumes "1 \<le> (p::int)" and "tp = \<lceil>real_of_int n / real_of_int p\<rceil>"
  shows "(tp - 1) * p < n \<and> n \<le> tp * p"
proof -
  have tp: "tp = - (- n div p)" using assms(2) by (simp add: ceiling_divide_eq_div)
  define d where "d = - n div p"
  define m where "m = - n mod p"
  have "p * d + m = - n" unfolding d_def m_def by (rule mult_div_mod_eq)
  moreover have "0 \<le> m" "m < p" unfolding m_def using assms(1) by simp_all
  ultimately have "(- d - 1) * p < n \<and> n \<le> - d * p"
    by (simp add: algebra_simps)
  then show ?thesis unfolding tp d_def .
qed

lemma page_size:
  assumes "1 \<le> p" and "1 \<le> i"
  shows "int (length (pg_data (paginatePolicies ps i p)))
       = min (i * p) (int (length ps)) - min ((i - 1) * p) (int (length ps))"
proof -
  have 0: "0 \<le> (i - 1) * p" using assms by simp
  have 1: "(i - 1) * p + p = i * p" by (simp add: algebra_simps)
  have 2: "(i - 1) * p \<le> i * p" using assms by (simp add: algebra_simps)
  have 3: "0 \<le> i * p" using 0 2 by linarith
  show ?thesis using 0 2 3 unfolding paginatePolicies_def slice_def Let_def 1
    by (auto simp add: min_def)
qed

lemma telescope:
  fixes f :: "int \<Rightarrow> int"
  shows "(\<Sum>i\<leftarrow>[1..int k]. f i - f (i - 1)) = f (int k) - f 0"
proof (induction k)
  case 0
  then show ?case by simp
next
  case (Suc k)
  have "[1..int (Suc k)] = [1..int k] @ [int (Suc k)]"
    by (simp add: upto_rec2)
  then show ?case using Suc by simp
qed

text \<open>
  C4.  For every record set and every \<open>perPage = p \<ge> 1\<close>: \<open>totalPages\<close> is
  \<open>ceil(total / p)\<close> for the input length \<open>total\<close>; the sizes of the slices of the pages
  \<open>1, ..., totalPages\<close> add up to \<open>total\<close>; and when \<open>total > 0\<close> the slice of the last
  page has between 1 and \<open>p\<close> records.
\<close>

theorem paginate_pages:
  assumes "1 \<le> p" and "tp = \<lceil>real (length ps) / real_of_int p\<rceil>"
  shows "pg_totalPages (paginatePolicies ps page p) = Num tp
     \<and> (\<Sum>i\<leftarrow>[1..tp]. int (length (pg_data (paginatePolicies ps i p)))) = int (length ps)
     \<and> (0 < length ps \<longrightarrow>
          1 \<le> length (pg_data (paginatePolicies ps tp p))
          \<and> int (length (pg_data (paginatePolicies ps tp p))) \<le> p)"
proof -
  let ?n = "int (length ps)"
  have tp': "tp = \<lceil>real_of_int ?n / real_of_int p\<rceil>" using assms(2) by simp
  have b: "(tp - 1) * p < ?n" "?n \<le> tp * p"
    using ceil_bounds [OF assms(1) tp'] by simp_all
  have tp0: "0 \<le> tp"
  proof (rule ccontr)
    assume "\<not> 0 \<le> tp"
    then have "tp \<le> - 1" by simp
    then have "tp * p \<le> - 1 * p" using assms(1) by (intro mult_right_mono) simp_all
    then show False using b(2) assms(1) by simp
  qed
  have first: "pg_totalPages (paginatePolicies ps page p) = Num tp"
    using assms(1) tp' by (simp add: paginatePolicies_def ceil_div_def Let_def)
  have "(\<Sum>i\<leftarrow>[1..tp]. int (length (pg_data (paginatePolicies ps i p))))
      = (\<Sum>i\<leftarrow>[1..tp]. min (i * p) ?n - min ((i - 1) * p) ?n)"
    by (rule arg_cong [where f = sum_list], rule map_cong)
      (simp_all add: page_size [OF assms(1)])
  also have "\<dots> = min (tp * p) ?n - min (0 * p) ?n"
    using telescope [of "\<lambda>i. min (i * p) ?n" "nat tp"] tp0 by simp
  also have "\<dots> = ?n" using b(2) by simp
  finally have second:
    "(\<Sum>i\<leftarrow>[1..tp]. int (length (pg_data (paginatePolicies ps i p)))) = ?n" .
  have third: "1 \<le> length (pg_data (paginatePolicies ps tp p))
          \<and> int (length (pg_data (paginatePolicies ps tp p))) \<le> p" if "0 < length ps"
  proof -
    have "1 \<le> tp"
    proof (rule ccontr)
      assume "\<not> 1 \<le> tp"
      then have "tp = 0" using tp0 by simp
      then show False using b(2) that by simp
    qed
    then have "int (length (pg_data (paginatePolicies ps tp p)))
        = min (tp * p) ?n - min ((tp - 1) * p) ?n"
      by (rule page_size [OF assms(1)])
    also have "\<dots> = ?n - (tp - 1) * p" using b by simp
    finally have eq: "int (length (pg_data (paginatePolicies ps tp p))) = ?n - (tp - 1) * p" .
    have "?n - (tp - 1) * p \<le> p" using b(2) by (simp add: algebra_simps)
    moreover have "1 \<le> ?n - (tp - 1) * p" using b(1) by simp
    ultimately show ?thesis using eq by linarith
  qed
  show ?thesis using first second third by blast
qed

theorem paginate_pages_witness:
  "pg_totalPages (paginatePolicies
      (replicate 25 (example_policy ''a'' ''t'' ''2024-01-01'' CC governance Guidance)) 2 20)
     = Num 2
   \<and> (\<Sum>i\<leftarrow>[1..2]. int (length (pg_data (paginatePolicies
      (replicate 25 (example_policy ''a'' ''t'' ''2024-01-01'' CC governance Guidance)) i 20))))
     = 25
   \<and> length (pg_data (paginatePolicies
      (replicate 25 (example_policy ''a'' ''t'' ''2024-01-01'' CC governance Guidance)) 2 20))
     = 5"
proof -
  have tp: "(2::int) = \<lceil>real (length (replicate 25
      (example_policy ''a'' ''t'' ''2024-01-01'' CC governance Guidance))) / real_of_int 20\<rceil>"
    by simp
  have last: "length (pg_data (paginatePolicies
      (replicate 25 (example_policy ''a'' ''t'' ''2024-01-01'' CC governance Guidance)) 2 20))
     = 5"
    by (simp add: paginatePolicies_def slice_def)
  show ?thesis
    using paginate_pages [OF _ tp, of 2] last by simp
qed

section \<open>Sorter: ascending reversed against descending\<close>

text \<open>
  C2, as stated: sorting by \<open>published_date\<close> ascending and reversing gives the sequence
  of the descending sort.  The sort is stable in both directions, so two records with the
  same date keep their input order in both sorts, and the reversal swaps them.
\<close>

theorem sort_reverse_counterexample:
  "rev (sortPolicies
      [example_policy ''a'' ''First'' ''2024-01-01'' CC governance Guidance,
       example_policy ''b'' ''Second'' ''2024-01-01'' CC governance Guidance]
      By_published_date Asc)
   \<noteq> sortPolicies
      [example_policy ''a'' ''First'' ''2024-01-01'' CC governance Guidance,
       example_policy ''b'' ''Second'' ''2024-01-01'' CC governance Guidance]
      By_published_date Desc"
  by (simp add: sortPolicies_def array_sort_def compare_policies_def localeCompare_def
      example_policy_def)

text \<open>Auxiliary facts: the sort permutes its input and orders it by the comparator.\<close>

lemma mset_insert_sorted: "mset (insert_sorted cmp x ys) = add_mset x (mset ys)"
  by (induction ys) simp_all

lemma mset_array_sort: "mset (array_sort cmp xs) = mset xs"
  by (induction xs) (simp_all add: array_sort_def mset_insert_sorted)

lemma set_insert_sorted: "set (insert_sorted cmp x ys) = insert x (set ys)"
  by (induction ys) auto

lemma sorted_wrt_insert_sorted:
  assumes le: "\<And>a b. cmp a b \<le> 0 \<longleftrightarrow> R a b"
    and total: "\<And>a b. R a b \<or> R b a"
    and trans: "\<And>a b c. R a b \<Longrightarrow> R b c \<Longrightarrow> R a c"
  shows "sorted_wrt R ys \<Longrightarrow> sorted_wrt R (insert_sorted cmp x ys)"
proof (induction ys)
  case Nil
  then show ?case by simp
next
  case (Cons y ys)
  show ?case
  proof (cases "R x y")
    case True
    then have "\<forall>z\<in>set ys. R x z" using Cons.prems trans by auto
    then show ?thesis using True Cons.prems by (simp add: le)
  next
    case False
    then have "R y x" using total by blast
    then show ?thesis using False Cons by (auto simp add: le set_insert_sorted)
  qed
qed

lemma sorted_wrt_array_sort:
  assumes le: "\<And>a b. cmp a b \<le> 0 \<longleftrightarrow> R a b"
    and total: "\<And>a b. R a b \<or> R b a"
    and trans: "\<And>a b c. R a b \<Longrightarrow> R b c \<Longrightarrow> R a c"
  shows "sorted_wrt R (array_sort cmp xs)"
proof (induction xs)
  case Nil
  show ?case by (simp add: array_sort_def)
next
  case (Cons x xs)
  have "array_sort cmp (x # xs) = insert_sorted cmp x (array_sort cmp xs)"
    by (simp add: array_sort_def)
  then show ?case
    using sorted_wrt_insert_sorted [of cmp R, OF le total trans Cons] by simp
qed

lemma localeCompare_le: "localeCompare a b \<le> 0 \<longleftrightarrow> a \<le> b"
  by (auto simp add: localeCompare_def)

lemma localeCompare_ge: "0 \<le> localeCompare a b \<longleftrightarrow> b \<le> a"
  by (auto simp add: localeCompare_def)

lemma sorted_asc:
  "sorted (map published_date (sortPolicies ps By_published_date Asc))"
  unfolding sortPolicies_def sorted_map
  by (rule sorted_wrt_array_sort) (auto simp add: compare_policies_def localeCompare_le)

lemma sorted_desc:
  "sorted (map published_date (rev (sortPolicies ps By_published_date Desc)))"
  unfolding sortPolicies_def sorted_map sorted_wrt_rev
  by (rule sorted_wrt_array_sort) (auto simp add: compare_policies_def localeCompare_ge)

text \<open>
  C2, amended.  For every record set whose \<open>published_date\<close> values are ISO dates
  (\<open>YYYY-MM-DD\<close>) and in which no two different records have the same \<open>published_date\<close>,
  sorting by \<open>published_date\<close> ascending and reversing gives, element for element, the
  sequence of the descending sort.  The first hypothesis is the format of the field in the
  schema; on ISO dates the collation of the run-time is the code-unit order, and it
  compares two dates as equal only when they are the same string.
\<close>

theorem sort_reverse_distinct_dates:
  assumes "\<forall>p\<in>set ps. iso_date (published_date p)"
    and "inj_on published_date (set ps)"
  shows "rev (sortPolicies ps By_published_date Asc) = sortPolicies ps By_published_date Desc"
proof -
  let ?A = "sortPolicies ps By_published_date Asc"
  let ?D = "sortPolicies ps By_published_date Desc"
  have mA: "mset ?A = mset ps" and mD: "mset ?D = mset ps"
    by (simp_all add: sortPolicies_def mset_array_sort)
  have "mset (map published_date ?A) = mset (map published_date ps)"
    using mA by (metis mset_map)
  then have 1: "sort (map published_date ps) = map published_date ?A"
    by (rule properties_for_sort) (rule sorted_asc)
  have "mset (map published_date (rev ?D)) = mset (map published_date ps)"
    using mD by (metis mset_map mset_rev)
  then have 2: "sort (map published_date ps) = map published_date (rev ?D)"
    by (rule properties_for_sort) (rule sorted_desc)
  have sA: "set ?A = set ps" using mA by (rule mset_eq_setD)
  have sD: "set (rev ?D) = set ps" using mD by (metis mset_eq_setD set_rev)
  have "inj_on published_date (set ?A \<union> set (rev ?D))" using assms(2) sA sD by simp
  then have "?A = rev ?D" using 1 2 by (simp add: inj_on_map_eq_map [symmetric])
  then show ?thesis by simp
qed

theorem sort_reverse_distinct_dates_witness:
  "iso_date ''2024-02-01'' \<and> iso_date ''2023-12-31'' \<and> iso_date ''2024-01-15''
   \<and> rev (sortPolicies
      [example_policy ''a'' ''First'' ''2024-02-01'' CC governance Guidance,
       example_policy ''b'' ''Second'' ''2023-12-31'' CC governance Guidance,
       example_policy ''c'' ''Third'' ''2024-01-15'' CC governance Guidance]
      By_published_date Asc)
   = [example_policy ''a'' ''First'' ''2024-02-01'' CC governance Guidance,
      example_policy ''c'' ''Third'' ''2024-01-15'' CC governance Guidance,
      example_policy ''b'' ''Second'' ''2023-12-31'' CC governance Guidance]
   \<and> sortPolicies
      [example_policy ''a'' ''First'' ''2024-02-01'' CC governance Guidance,
       example_policy ''b'' ''Second'' ''2023-12-31'' CC governance Guidance,
       example_policy ''c'' ''Third'' ''2024-01-15'' CC governance Guidance]
      By_published_date Desc
   = [example_policy ''a'' ''First'' ''2024-02-01'' CC governance Guidance,
      example_policy ''c'' ''Third'' ''2024-01-15'' CC governance Guidance,
      example_policy ''b'' ''Second'' ''2023-12-31'' CC governance Guidance]"
  using sort_reverse_distinct_dates
    [of "[example_policy ''a'' ''First'' ''2024-02-01'' CC governance Guidance,
          example_policy ''b'' ''Second'' ''2023-12-31'' CC governance Guidance,
          example_policy ''c'' ''Third'' ''2024-01-15'' CC governance Guidance]"]
  by (simp add: sortPolicies_def array_sort_def compare_policies_def localeCompare_def
      example_policy_def is_digit_def)

section \<open>Analytics aggregator: regulator counts and the summary timestamp\<close>

text \<open>
  C1.  The claim: the per-regulator counts have an entry, starting at zero, for each of
  the nine regulators, every record increments the count of its regulator, and the counts
  add up to the number of records.  The counter object of the handler is seeded with six
  of the nine regulators (\<open>OSCR\<close>, \<open>CCNI\<close> and \<open>ASA\<close> are missing), and the loop skips a
  record whose regulator is not a key.  For the single record below, of regulator \<open>OSCR\<close>,
  the response has no \<open>OSCR\<close> entry and the counts add up to 0, while \<open>total\<close> is 1 and the
  domain counter, seeded with all eight domains, counts the record.
\<close>

theorem by_regulator_omits_OSCR:
  "a_by_regulator (analytics_GET (\<lambda>s. NaN) []
       [example_policy ''a'' ''Trustee duties'' ''2024-01-01'' OSCR governance Guidance]) OSCR
     = None
   \<and> (\<Sum>r\<leftarrow>[CC, ICO, OFSI, HSE, HMRC, FR, OSCR, CCNI, ASA].
        case a_by_regulator (analytics_GET (\<lambda>s. NaN) []
          [example_policy ''a'' ''Trustee duties'' ''2024-01-01'' OSCR governance Guidance]) r of
          None \<Rightarrow> 0 | Some c \<Rightarrow> c) = 0
   \<and> a_total (analytics_GET (\<lambda>s. NaN) []
       [example_policy ''a'' ''Trustee duties'' ''2024-01-01'' OSCR governance Guidance]) = 1
   \<and> a_by_domain (analytics_GET (\<lambda>s. NaN) []
       [example_policy ''a'' ''Trustee duties'' ''2024-01-01'' OSCR governance Guidance])
       governance = Some 1"
  by (simp add: analytics_GET_def process_policy_def increment_def byRegulator_init_def
      byDomain_init_def byType_init_def example_policy_def Let_def)

text \<open>Auxiliary fact: \<open>Math.max\<close> of finitely many integers is their maximum.\<close>

lemma Math_max_Num:
  "xs \<noteq> [] \<Longrightarrow> Math_max (map Num xs) = Num (Max (set xs))"
proof (induction xs)
  case Nil
  then show ?case by simp
next
  case (Cons x xs)
  show ?case
  proof (cases "xs = []")
    case True
    then show ?thesis by (simp add: Math_max_def)
  next
    case False
    with Cons have "Math_max (map Num xs) = Num (Max (set xs))" by simp
    then show ?thesis using False by (simp add: Math_max_def)
  qed
qed

text \<open>
  C9.  When every \<open>last_updated\<close> of the record set is a date, \<open>t p\<close> being its time in
  milliseconds, the \<open>last_updated\<close> of the summary is the maximum of these times for a
  non-empty record set, and it is \<open>null\<close> (no number at all, so not 0) for the empty one.
\<close>

theorem analytics_last_updated:
  assumes "\<forall>p\<in>set ps. getTime (last_updated p) = Num (t p)"
  shows "a_last_updated (analytics_GET getTime months ps)
       = (if ps = [] then Null else Val (Num (Max (t ` set ps))))"
proof -
  have eq: "map (\<lambda>p. getTime (last_updated p)) ps = map Num (map t ps)"
    using assms by simp
  have "Math_max (map (\<lambda>p. getTime (last_updated p)) ps) = Num (Max (t ` set ps))"
    if "ps \<noteq> []"
  proof -
    have "map t ps \<noteq> []" using that by simp
    then have "Math_max (map Num (map t ps)) = Num (Max (set (map t ps)))"
      by (rule Math_max_Num)
    then show ?thesis unfolding eq by simp
  qed
  then show ?thesis by (simp add: analytics_GET_def Let_def)
qed

theorem analytics_last_updated_witness:
  "a_last_updated (analytics_GET
      (\<lambda>s. if s = ''1970-01-02'' then Num 86400000
           else if s = ''1970-01-03'' then Num 172800000 else NaN)
      []
      [example_policy ''a'' ''t'' ''1970-01-03'' CC governance Guidance,
       example_policy ''b'' ''t'' ''1970-01-02'' CC governance Guidance])
     = Val (Num 172800000)
   \<and> a_last_updated (analytics_GET (\<lambda>s. NaN) [] []) = Null"
  using analytics_last_updated
    [of "[example_policy ''a'' ''t'' ''1970-01-03'' CC governance Guidance,
          example_policy ''b'' ''t'' ''1970-01-02'' CC governance Guidance]"
      "\<lambda>s. if s = ''1970-01-02'' then Num 86400000
           else if s = ''1970-01-03'' then Num 172800000 else NaN"
      "\<lambda>p. if last_updated p = ''1970-01-02'' then 86400000 else 172800000" "[]"]
    analytics_last_updated [of "[]" "\<lambda>s. NaN" "\<lambda>p. 0" "[]"]
  by (simp add: example_policy_def)

end
